theory Spec2Isabelle
  imports Complex_Main "HOL-Library.Word"
begin

unbundle bit_operations_syntax

section \<open>JavaScript values used by the rendering code\<close>

text \<open>
  A JavaScript number is a binary64 value: NaN, one of the two infinities, or a finite
  value, which is kept as the real number it denotes. The result of \<open>*\<close> and \<open>+\<close> on
  finite operands is the exact result rounded to binary64 (\<open>round_binary64\<close>: to the
  nearest value, ties to the even significand, with gradual underflow and with overflow
  to an infinity). The sign of zero is not part of this model. What the code tests
  (\<open>isNaN\<close>, \<open>==\<close>, \<open>===\<close>, \<open>| 0\<close>) is modelled as ECMAScript defines it on these four
  kinds of value.
\<close>

datatype number = NaN | PosInf | NegInf | Finite real

fun isNaN :: "number \<Rightarrow> bool" where
  "isNaN NaN = True"
| "isNaN PosInf = False"
| "isNaN NegInf = False"
| "isNaN (Finite r) = False"

text \<open>\<open>a === b\<close> (and \<open>a == b\<close>) on two numbers: NaN is equal to nothing, itself included.\<close>

definition strict_eq :: "number \<Rightarrow> number \<Rightarrow> bool" where
  "strict_eq a b = (if isNaN a then False else if isNaN b then False else a = b)"

text \<open>\<open>2^e\<close> for an integer exponent.\<close>

definition pow2 :: "int \<Rightarrow> real" where
  "pow2 e = (if 0 \<le> e then 2 ^ nat e else 1 / 2 ^ nat (- e))"

text \<open>
  \<open>normalise 0 y\<close> for \<open>0 < y\<close> is a pair \<open>(e, y')\<close> with \<open>y = y' * 2^e\<close>: the
  binary exponent \<open>e\<close> stays within \<open>-1022 .. 1024\<close>, and \<open>1 \<le> y' < 2\<close> unless the
  exponent has reached one of these bounds (a subnormal value, or one beyond the
  binary64 range).
\<close>

function normalise :: "int \<Rightarrow> real \<Rightarrow> int \<times> real" where
  "normalise e y =
     (if 2 \<le> y \<and> e < 1024 then normalise (e + 1) (y / 2)
      else if y < 1 \<and> - 1022 < e then normalise (e - 1) (y * 2)
      else (e, y))"
  by pat_completeness auto
termination
  by (relation "measure (\<lambda>(e, y). if 2 \<le> y then nat (1024 - e)
                                  else if y < 1 then nat (e + 1022) else 0)") auto

declare normalise.simps [simp del]

text \<open>The integer nearest to \<open>x\<close>; of two equally near integers, the even one.\<close>

definition round_half_even :: "real \<Rightarrow> int" where
  "round_half_even x =
     (let f = \<lfloor>x\<rfloor>; d = x - real_of_int f
      in if d < 1 / 2 then f
         else if 1 / 2 < d then f + 1
         else if even f then f else f + 1)"

text \<open>
  The binary64 value of a real number: a significand of 53 bits (\<open>m\<close>, the scaled
  magnitude rounded to an integer) at the exponent found by \<open>normalise\<close>; a result of
  magnitude \<open>2^1024\<close> or more is an infinity. This is also the value that a decimal
  literal of the source denotes.
\<close>

definition round_binary64 :: "real \<Rightarrow> number" where
  "round_binary64 x =
     (if x = 0 then Finite 0
      else
        let (e, y) = normalise 0 \<bar>x\<bar>;
            m = round_half_even (y * 2 ^ 52);
            v = real_of_int m * pow2 (e - 52)
        in if 2 ^ 1024 \<le> v then (if 0 < x then PosInf else NegInf)
           else Finite (if 0 < x then v else - v))"

text \<open>An infinity of sign \<open>pos\<close> multiplied by the finite value \<open>r\<close>.\<close>

definition inf_times :: "bool \<Rightarrow> real \<Rightarrow> number" where
  "inf_times pos r =
     (if r = 0 then NaN else if (0 < r) = pos then PosInf else NegInf)"

text \<open>\<open>a * b\<close> on numbers.\<close>

fun times_js :: "number \<Rightarrow> number \<Rightarrow> number" where
  "times_js NaN b = NaN"
| "times_js a NaN = NaN"
| "times_js (Finite r) (Finite s) = round_binary64 (r * s)"
| "times_js (Finite r) PosInf = inf_times True r"
| "times_js (Finite r) NegInf = inf_times False r"
| "times_js PosInf (Finite s) = inf_times True s"
| "times_js NegInf (Finite s) = inf_times False s"
| "times_js PosInf PosInf = PosInf"
| "times_js NegInf NegInf = PosInf"
| "times_js PosInf NegInf = NegInf"
| "times_js NegInf PosInf = NegInf"

text \<open>\<open>a + b\<close> on numbers.\<close>

fun plus_js :: "number \<Rightarrow> number \<Rightarrow> number" where
  "plus_js NaN b = NaN"
| "plus_js a NaN = NaN"
| "plus_js (Finite r) (Finite s) = round_binary64 (r + s)"
| "plus_js (Finite r) PosInf = PosInf"
| "plus_js (Finite r) NegInf = NegInf"
| "plus_js PosInf (Finite s) = PosInf"
| "plus_js NegInf (Finite s) = NegInf"
| "plus_js PosInf PosInf = PosInf"
| "plus_js NegInf NegInf = NegInf"
| "plus_js PosInf NegInf = NaN"
| "plus_js NegInf PosInf = NaN"

text \<open>
  ECMAScript's \<open>ToInt32\<close>: NaN and the infinities give 0; a finite value is truncated
  towards zero and reduced modulo \<open>2^32\<close>.
\<close>

definition truncate_js :: "real \<Rightarrow> int" where
  "truncate_js r = (if 0 \<le> r then \<lfloor>r\<rfloor> else - \<lfloor>- r\<rfloor>)"

fun ToInt32 :: "number \<Rightarrow> 32 word" where
  "ToInt32 NaN = 0"
| "ToInt32 PosInf = 0"
| "ToInt32 NegInf = 0"
| "ToInt32 (Finite r) = word_of_int (truncate_js r)"

text \<open>\<open>a | b\<close> on numbers: both operands through \<open>ToInt32\<close>, the result read as signed.\<close>

definition bitor_js :: "number \<Rightarrow> number \<Rightarrow> number" where
  "bitor_js a b = Finite (real_of_int (sint (ToInt32 a OR ToInt32 b)))"

text \<open>Errors that abort a call.\<close>

datatype error = AssertionError string | TypeError string

text \<open>
  Modelled from the spec: \<open>Debug.assert\<close> is not among the source files. The spec calls a
  failed assertion fatal ("fails fast (assertion)", "surfaced immediately via an
  assertion/abort"), so a false condition aborts the call with the given message.
\<close>

definition Debug_assert :: "bool \<Rightarrow> string \<Rightarrow> error + unit" where
  "Debug_assert cond message = (if cond then Inr () else Inl (AssertionError message))"

section \<open>Textures and matrices\<close>

text \<open>The fields of a \<open>Rectangle\<close> (\<open>x\<close>, \<open>y\<close>, \<open>width\<close>, \<open>height\<close>).\<close>

record Rectangle =
  rect_x :: number
  rect_y :: number
  rect_width :: number
  rect_height :: number

text \<open>Objects are compared by identity (\<open>===\<close>); a reference is the identity of an object.\<close>

type_synonym ref = nat

text \<open>
  The properties of a \<open>Texture\<close> that the driver and the sprite read. \<open>native\<close> is the
  identity of the native image; \<open>mSlice9borders\<close> is \<open>None\<close> when it is null.
\<close>

record Texture =
  native :: ref
  isValid :: bool
  region :: Rectangle
  untrimmedRegion :: Rectangle
  renderWidth :: number
  renderHeight :: number
  mSlice9borders :: "Rectangle option"
  registrationPointX :: number
  registrationPointY :: number

text \<open>The six entries \<open>m.value[0]\<close> .. \<open>m.value[5]\<close> of a \<open>Matrix\<close>: a, b, c, d, tx, ty.\<close>

record Matrix =
  v0 :: number
  v1 :: number
  v2 :: number
  v3 :: number
  v4 :: number
  v5 :: number

section \<open>Blend modes\<close>

text \<open>
  Modelled from the spec: the \<open>BlendMode\<close> enumeration is not among the source files. The
  spec names \<open>AUTO\<close> and \<open>MULTIPLY\<close>; every other identifier is \<open>OtherMode\<close> with its
  name.
\<close>

datatype BlendMode = AUTO | MULTIPLY | OtherMode string

text \<open>
  What the driver's \<open>mGlobalBlendMode\<close> can hold: \<open>null\<close>, \<open>undefined\<close> (a lookup of a
  key that the table \<open>CanvasBlendMode\<close> lacks) or a composite-operation name.
\<close>

datatype blendval = Null | Undefined | Operation string


section \<open>CanvasDriver\<close>

text \<open>
  The calls and property writes that the driver issues to its 2D context \<open>mCtx\<close> (and
  to the context's canvas). The context is modelled by the sequence of these operations
  in the order they were issued. \<open>style_width w\<close> is the write of \<open>w + 'px'\<close>.
\<close>

datatype ctx_op =
    drawImage ref number number number number number number number number
  | ctx_setTransform number number number number number number
  | ctx_globalAlpha number
  | ctx_globalCompositeOperation blendval
  | canvas_width number
  | canvas_height number
  | style_width number
  | style_height number

record CanvasDriver =
  mStageScaleFactor :: number
  mClientWidth :: number
  mClientHeight :: number
  mSnapToPixels :: bool
  mTransform :: Matrix
  mGlobalAlpha :: number
  mGlobalBlendMode :: blendval
  mCtx :: "ctx_op list"


definition drawTexture :: "CanvasDriver \<Rightarrow> Texture \<Rightarrow> CanvasDriver" where
  "drawTexture this texture =
     (if isValid texture = False then this
      else
        let scale = mStageScaleFactor this;
            sourceX = rect_x (region texture);
            sourceY = rect_y (region texture);
            sourceWidth = rect_width (region texture);
            sourceHeight = rect_height (region texture);
            destX = times_js (rect_x (untrimmedRegion texture)) scale;
            destY = times_js (rect_y (untrimmedRegion texture)) scale;
            destWidth = times_js (renderWidth texture) scale;
            destHeight = times_js (renderHeight texture) scale
        in this\<lparr>mCtx := mCtx this @
             [drawImage (native texture) sourceX sourceY sourceWidth sourceHeight
                destX destY destWidth destHeight]\<rparr>)"

definition drawTextureWithOffset ::
  "CanvasDriver \<Rightarrow> Texture \<Rightarrow> number \<Rightarrow> number \<Rightarrow> CanvasDriver" where
  "drawTextureWithOffset this texture ox oy =
     (if isValid texture = False then this
      else
        let scale = mStageScaleFactor this;
            sourceX = rect_x (region texture);
            sourceY = rect_y (region texture);
            sourceWidth = rect_width (region texture);
            sourceHeight = rect_height (region texture);
            destX = times_js (plus_js ox (rect_x (untrimmedRegion texture))) scale;
            destY = times_js (plus_js oy (rect_y (untrimmedRegion texture))) scale;
            destWidth = times_js (renderWidth texture) scale;
            destHeight = times_js (renderHeight texture) scale
        in this\<lparr>mCtx := mCtx this @
             [drawImage (native texture) sourceX sourceY sourceWidth sourceHeight
                destX destY destWidth destHeight]\<rparr>)"

text \<open>The six assertions at the head of \<open>setTransform\<close>, in the source's order.\<close>

definition assert_components :: "Matrix \<Rightarrow> error + unit" where
  "assert_components m =
     (case Debug_assert (\<not> isNaN (v0 m)) ''a-element cannot be NaN'' of
        Inl e \<Rightarrow> Inl e
      | Inr u0 \<Rightarrow>
     (case Debug_assert (\<not> isNaN (v1 m)) ''b-element cannot be NaN'' of
        Inl e \<Rightarrow> Inl e
      | Inr u1 \<Rightarrow>
     (case Debug_assert (\<not> isNaN (v2 m)) ''c-element cannot be NaN'' of
        Inl e \<Rightarrow> Inl e
      | Inr u2 \<Rightarrow>
     (case Debug_assert (\<not> isNaN (v3 m)) ''d-element cannot be NaN'' of
        Inl e \<Rightarrow> Inl e
      | Inr u3 \<Rightarrow>
     (case Debug_assert (\<not> isNaN (v4 m)) ''tx-element cannot be NaN'' of
        Inl e \<Rightarrow> Inl e
      | Inr u4 \<Rightarrow>
        Debug_assert (\<not> isNaN (v5 m)) ''ty-element cannot be NaN'')))))"

definition setTransform :: "CanvasDriver \<Rightarrow> Matrix \<Rightarrow> error + CanvasDriver" where
  "setTransform this0 m =
     (case assert_components m of
        Inl e \<Rightarrow> Inl e
      | Inr u \<Rightarrow>
        let this1 = this0\<lparr>mTransform := m\<rparr>;
            scale = mStageScaleFactor this1
        in if mSnapToPixels this1 = True
           then Inr (this1\<lparr>mCtx := mCtx this1 @
                  [ctx_setTransform (v0 m) (v1 m) (v2 m) (v3 m)
                     (bitor_js (times_js (v4 m) scale) (Finite 0))
                     (bitor_js (times_js (v5 m) scale) (Finite 0))]\<rparr>)
           else Inr (this1\<lparr>mCtx := mCtx this1 @
                  [ctx_setTransform (v0 m) (v1 m) (v2 m) (v3 m)
                     (times_js (v4 m) scale) (times_js (v5 m) scale)]\<rparr>))"



section \<open>Dirty flags and display objects\<close>

text \<open>
  Modelled from the spec: the \<open>DirtyFlag\<close> constants are not among the source files. The
  spec describes the mask as "a bitmask per node with at least two independent bits",
  \<open>RENDER\<close> and \<open>RENDER_CACHE\<close>. The two constants are parameters of the model, and
  \<open>independent_bits\<close> says that each is one bit of a 32-bit mask and that they differ.
\<close>

record DirtyFlag =
  RENDER :: "32 word"
  RENDER_CACHE :: "32 word"

definition single_bit :: "32 word \<Rightarrow> bool" where
  "single_bit w = (w \<in> set (map (\<lambda>i. push_bit i 1) [0..<32]))"

definition independent_bits :: "DirtyFlag \<Rightarrow> bool" where
  "independent_bits DF =
     (single_bit (RENDER DF) \<and> single_bit (RENDER_CACHE DF) \<and> RENDER DF \<noteq> RENDER_CACHE DF)"

text \<open>
  The state that \<open>Sprite\<close> and \<open>BitmapTextField\<close> inherit from \<open>DisplayObject\<close> and use
  here. \<open>blendMode\<close> and \<open>finalTransformation\<close> are getters of the base class, which is
  not among the source files; each field holds the value its getter returns.
\<close>

record DisplayObject =
  mDirty :: "32 word"
  mAlpha :: number
  mVisible :: bool
  blendMode :: BlendMode
  finalTransformation :: Matrix

text \<open>
  Modelled from the spec: \<open>setDirty(flagSet, propagateToChildren)\<close> of the base class is
  not among the source files. It "ORs \<open>flagSet\<close> into the node's mask"; with
  \<open>propagateToChildren\<close> true it would do the same in every descendant, and children are
  not part of this model (every call in the source files passes \<open>false\<close>).
\<close>

definition setDirty ::
  "32 word \<Rightarrow> bool \<Rightarrow> 'a DisplayObject_scheme \<Rightarrow> 'a DisplayObject_scheme" where
  "setDirty flagSet propagateToChildren this = this\<lparr>mDirty := mDirty this OR flagSet\<rparr>"

text \<open>
  Modelled from the spec: \<open>setRenderDirty()\<close> of the base class is not among the source
  files. It is "a convenience that marks \<open>RENDER\<close> on the node".
\<close>

definition setRenderDirty ::
  "DirtyFlag \<Rightarrow> 'a DisplayObject_scheme \<Rightarrow> 'a DisplayObject_scheme" where
  "setRenderDirty DF this = this\<lparr>mDirty := mDirty this OR RENDER DF\<rparr>"

section \<open>Renderers\<close>

text \<open>
  The fields of a renderer that \<open>onRender\<close> writes, with the prefix \<open>r_\<close>. The first
  five are common to every renderer (a parent renderer is read through them); the rest
  belong to the renderer of a bitmap text field. \<open>'f\<close> is the type of the font data.
\<close>

record Renderer =
  r_transform :: Matrix
  r_alpha :: number
  r_blendMode :: BlendMode
  r_visible :: bool
  r_dirty :: "32 word"

record 'f BitmapTextRenderer = Renderer +
  r_text :: string
  r_data :: 'f
  r_multiline :: bool
  r_lineHeight :: number
  r_fieldWidth :: number
  r_fieldHeight :: number
  r_autoSize :: bool
  r_bounds :: Rectangle

section \<open>BitmapTextField\<close>

record 'f BitmapTextField = DisplayObject +
  mRenderer :: "'f BitmapTextRenderer"
  mData :: 'f
  mText :: string
  mAutoSize :: bool
  mMultiline :: bool
  mLineHeight :: number
  mBounds :: Rectangle
  mTextBounds :: Rectangle
  mFieldWidth :: number
  mFieldHeight :: number

text \<open>\<open>new Rectangle()\<close>: all four fields are zero.\<close>

definition new_Rectangle :: Rectangle where
  "new_Rectangle =
     \<lparr>rect_x = Finite 0, rect_y = Finite 0, rect_width = Finite 0, rect_height = Finite 0\<rparr>"

text \<open>
  \<open>onGetLocalBounds(outRect)\<close>; \<open>None\<close> is the omitted argument. The external
  \<open>TextMetricsEx.measureBitmap\<close> is the parameter \<open>measureBitmap\<close>: it returns the new
  contents of the rectangle passed as its last argument. The result is the returned
  rectangle and the field after the call.
\<close>

definition onGetLocalBounds ::
  "DirtyFlag \<Rightarrow> (string \<Rightarrow> 'f \<Rightarrow> number \<Rightarrow> Rectangle \<Rightarrow> Rectangle) \<Rightarrow> Rectangle option
     \<Rightarrow> 'f BitmapTextField \<Rightarrow> Rectangle \<times> 'f BitmapTextField" where
  "onGetLocalBounds DF measureBitmap outRect this0 =
     (let outRect1 = (case outRect of None \<Rightarrow> new_Rectangle | Some r \<Rightarrow> r);
          this1 =
            (if mDirty this0 AND RENDER_CACHE DF \<noteq> 0
             then
               let text0 = mText this0;
                   text1 = (if mMultiline this0 = False
                            then filter (\<lambda>c. c \<noteq> CHR 0x0A) text0 else text0)
               in this0\<lparr>mTextBounds :=
                    measureBitmap text1 (mData this0) (mLineHeight this0) (mTextBounds this0)\<rparr>
             else this0);
          outRect2 =
            (if mAutoSize this1 = False
             then outRect1\<lparr>rect_width := mFieldWidth this1, rect_height := mFieldHeight this1\<rparr>
             else outRect1\<lparr>rect_width := rect_width (mTextBounds this1),
                            rect_height := rect_height (mTextBounds this1)\<rparr>)
      in (outRect2, this1))"

text \<open>The four assignments of the \<open>RENDER\<close> block of \<open>onRender\<close>.\<close>

definition copy_render_state ::
  "'p Renderer_scheme \<Rightarrow> 'f BitmapTextField \<Rightarrow> 'f BitmapTextField" where
  "copy_render_state parentRenderer this =
     this\<lparr>mRenderer := (mRenderer this)
       \<lparr>r_transform := finalTransformation this,
        r_alpha := times_js (mAlpha this) (r_alpha parentRenderer),
        r_blendMode := (if blendMode this = AUTO then r_blendMode parentRenderer
                        else blendMode this),
        r_visible := mVisible this\<rparr>\<rparr>"

text \<open>The \<open>RENDER\<close> block of \<open>onRender\<close>: the test, the assignments and the clear.\<close>

definition sync_RENDER ::
  "DirtyFlag \<Rightarrow> 'p Renderer_scheme \<Rightarrow> 'f BitmapTextField \<Rightarrow> 'f BitmapTextField" where
  "sync_RENDER DF parentRenderer this =
     (if mDirty this AND RENDER DF \<noteq> 0
      then
        let this1 = copy_render_state parentRenderer this
        in this1\<lparr>mDirty := mDirty this1 XOR RENDER DF\<rparr>
      else this)"

text \<open>The eight assignments of the \<open>RENDER_CACHE\<close> block of \<open>onRender\<close>.\<close>

definition rebuild_cache ::
  "DirtyFlag \<Rightarrow> (string \<Rightarrow> 'f \<Rightarrow> number \<Rightarrow> Rectangle \<Rightarrow> Rectangle)
     \<Rightarrow> 'f BitmapTextField \<Rightarrow> 'f BitmapTextField" where
  "rebuild_cache DF measureBitmap this =
     (let renderer1 = (mRenderer this)
            \<lparr>r_text := mText this,
             r_data := mData this,
             r_multiline := mMultiline this,
             r_lineHeight := mLineHeight this,
             r_fieldWidth := mFieldWidth this,
             r_fieldHeight := mFieldHeight this,
             r_autoSize := mAutoSize this\<rparr>;
          (bounds, this1) = onGetLocalBounds DF measureBitmap None this
      in this1\<lparr>mRenderer := renderer1\<lparr>r_bounds := bounds\<rparr>\<rparr>)"

text \<open>
  The \<open>RENDER_CACHE\<close> block of \<open>onRender\<close>. The getter \<open>isRenderable\<close> of the renderer
  is not among the source files and is a parameter, read on the rebuilt renderer.
\<close>

definition sync_RENDER_CACHE ::
  "DirtyFlag \<Rightarrow> (string \<Rightarrow> 'f \<Rightarrow> number \<Rightarrow> Rectangle \<Rightarrow> Rectangle)
     \<Rightarrow> ('f BitmapTextRenderer \<Rightarrow> bool) \<Rightarrow> 'f BitmapTextField \<Rightarrow> 'f BitmapTextField" where
  "sync_RENDER_CACHE DF measureBitmap isRenderable this =
     (if mDirty this AND RENDER_CACHE DF \<noteq> 0
      then
        let this1 = rebuild_cache DF measureBitmap this
        in if isRenderable (mRenderer this1) = True
           then this1\<lparr>mDirty := mDirty this1 XOR RENDER_CACHE DF\<rparr>
           else this1
      else this)"

text \<open>
  \<open>onRender(driver, parentRenderer)\<close>. \<open>driver.registerRenderer\<close> is not among the
  source files and is a parameter. The result is the value returned and the field after
  the call.
\<close>

definition onRender ::
  "DirtyFlag \<Rightarrow> (string \<Rightarrow> 'f \<Rightarrow> number \<Rightarrow> Rectangle \<Rightarrow> Rectangle)
     \<Rightarrow> ('f BitmapTextRenderer \<Rightarrow> bool) \<Rightarrow> ('d \<Rightarrow> 'f BitmapTextRenderer \<Rightarrow> 'h)
     \<Rightarrow> 'd \<Rightarrow> 'p Renderer_scheme \<Rightarrow> 'f BitmapTextField \<Rightarrow> 'h \<times> 'f BitmapTextField" where
  "onRender DF measureBitmap isRenderable registerRenderer driver parentRenderer this0 =
     (let oldDirty = mDirty this0;
          this1 = sync_RENDER DF parentRenderer this0;
          this2 = sync_RENDER_CACHE DF measureBitmap isRenderable this1;
          this3 = this2\<lparr>mRenderer := (mRenderer this2)\<lparr>r_dirty := oldDirty\<rparr>\<rparr>
      in (registerRenderer driver (mRenderer this3), this3))"

text \<open>The setters of \<open>BitmapTextField\<close> that compare with the current value first.\<close>

definition set_fieldWidth ::
  "DirtyFlag \<Rightarrow> number \<Rightarrow> 'f BitmapTextField \<Rightarrow> 'f BitmapTextField" where
  "set_fieldWidth DF val this =
     (if strict_eq val (mFieldWidth this) then this
      else setDirty (RENDER_CACHE DF) False (this\<lparr>mFieldWidth := val\<rparr>))"

definition set_fieldHeight ::
  "DirtyFlag \<Rightarrow> number \<Rightarrow> 'f BitmapTextField \<Rightarrow> 'f BitmapTextField" where
  "set_fieldHeight DF val this =
     (if strict_eq val (mFieldHeight this) then this
      else setDirty (RENDER_CACHE DF) False (this\<lparr>mFieldHeight := val\<rparr>))"

definition set_text ::
  "DirtyFlag \<Rightarrow> string \<Rightarrow> 'f BitmapTextField \<Rightarrow> 'f BitmapTextField" where
  "set_text DF val this =
     (if mText this = val then this
      else setDirty (RENDER_CACHE DF) False (this\<lparr>mText := val\<rparr>))"

definition set_autoSize ::
  "DirtyFlag \<Rightarrow> bool \<Rightarrow> 'f BitmapTextField \<Rightarrow> 'f BitmapTextField" where
  "set_autoSize DF val this =
     (if mAutoSize this = val then this
      else setDirty (RENDER_CACHE DF) False (this\<lparr>mAutoSize := val\<rparr>))"

section \<open>Sprite\<close>

text \<open>
  A sprite holds references: \<open>mTexture\<close> and \<open>mTiling\<close> are the identity of an object, or
  \<open>None\<close> for null. \<open>mSlice9grid\<close> holds the rectangle itself.
\<close>

record Sprite = DisplayObject +
  mTexture :: "ref option"
  mTextureName :: "string option"
  mTiling :: "ref option"
  mSlice9grid :: "Rectangle option"

definition set_slice9grid :: "DirtyFlag \<Rightarrow> Rectangle option \<Rightarrow> Sprite \<Rightarrow> Sprite" where
  "set_slice9grid DF val this =
     setDirty (RENDER_CACHE DF) False (setRenderDirty DF (this\<lparr>mSlice9grid := val\<rparr>))"

text \<open>
  The setter \<open>set texture(texture)\<close>. \<open>deref\<close> reads the texture object behind a
  reference. The setters \<open>anchorX\<close> and \<open>anchorY\<close> of the base class are not among the
  source files and are parameters. Reading a property of \<open>null\<close> throws.
\<close>

definition set_texture ::
  "DirtyFlag \<Rightarrow> (ref \<Rightarrow> Texture) \<Rightarrow> (number \<Rightarrow> Sprite \<Rightarrow> Sprite) \<Rightarrow> (number \<Rightarrow> Sprite \<Rightarrow> Sprite)
     \<Rightarrow> ref option \<Rightarrow> Sprite \<Rightarrow> error + Sprite" where
  "set_texture DF deref set_anchorX set_anchorY texture this0 =
     (if mTexture this0 = texture then Inr this0
      else
        let this1 = this0\<lparr>mTexture := texture\<rparr>
        in case texture of
             None \<Rightarrow> Inl (TypeError ''Cannot read property mSlice9borders of null'')
           | Some t \<Rightarrow>
               let this2 = (case mSlice9borders (deref t) of
                              None \<Rightarrow> this1
                            | Some borders \<Rightarrow> set_slice9grid DF (Some borders) this1);
                   this3 = set_anchorX (registrationPointX (deref t)) this2;
                   this4 = set_anchorY (registrationPointY (deref t)) this3;
                   this5 = setDirty (RENDER_CACHE DF) False this4
               in Inr (setRenderDirty DF this5))"

section \<open>The spec's wording, for comparison with the code\<close>

text \<open>
  The spec asks for a flag to be cleared by "bitwise AND-NOT of exactly the bits
  serviced". These are the two blocks of \<open>onRender\<close> with the clear written that way;
  everything else is as in \<open>sync_RENDER\<close> and \<open>sync_RENDER_CACHE\<close>.
\<close>

definition sync_RENDER_and_not ::
  "DirtyFlag \<Rightarrow> 'p Renderer_scheme \<Rightarrow> 'f BitmapTextField \<Rightarrow> 'f BitmapTextField" where
  "sync_RENDER_and_not DF parentRenderer this =
     (if mDirty this AND RENDER DF \<noteq> 0
      then
        let this1 = copy_render_state parentRenderer this
        in this1\<lparr>mDirty := mDirty this1 AND NOT (RENDER DF)\<rparr>
      else this)"

definition sync_RENDER_CACHE_and_not ::
  "DirtyFlag \<Rightarrow> (string \<Rightarrow> 'f \<Rightarrow> number \<Rightarrow> Rectangle \<Rightarrow> Rectangle)
     \<Rightarrow> ('f BitmapTextRenderer \<Rightarrow> bool) \<Rightarrow> 'f BitmapTextField \<Rightarrow> 'f BitmapTextField" where
  "sync_RENDER_CACHE_and_not DF measureBitmap isRenderable this =
     (if mDirty this AND RENDER_CACHE DF \<noteq> 0
      then
        let this1 = rebuild_cache DF measureBitmap this
        in if isRenderable (mRenderer this1) = True
           then this1\<lparr>mDirty := mDirty this1 AND NOT (RENDER_CACHE DF)\<rparr>
           else this1
      else this)"

text \<open>
  The spec's first rounding policy, "snap translation components to integers before
  scaling": the translation \<open>t\<close> is made an integer by \<open>to_integer\<close> and then
  multiplied by the scale factor.
\<close>

definition snap_before_scaling :: "(real \<Rightarrow> int) \<Rightarrow> number \<Rightarrow> number \<Rightarrow> number" where
  "snap_before_scaling to_integer t scale =
     times_js (case t of Finite r \<Rightarrow> Finite (real_of_int (to_integer r)) | _ \<Rightarrow> t) scale"

section \<open>Example inputs\<close>

text \<open>Concrete values at which the properties below are evaluated.\<close>

definition identity_matrix :: Matrix where
  "identity_matrix =
     \<lparr>v0 = Finite 1, v1 = Finite 0, v2 = Finite 0, v3 = Finite 1, v4 = Finite 0, v5 = Finite 0\<rparr>"

definition example_driver :: CanvasDriver where
  "example_driver =
     \<lparr>mStageScaleFactor = Finite 2, mClientWidth = Finite 640, mClientHeight = Finite 480,
      mSnapToPixels = True, mTransform = identity_matrix, mGlobalAlpha = Finite 1,
      mGlobalBlendMode = Operation ''multiply'', mCtx = []\<rparr>"

definition example_rect :: Rectangle where
  "example_rect =
     \<lparr>rect_x = Finite 3, rect_y = Finite 4, rect_width = Finite 32, rect_height = Finite 16\<rparr>"

definition example_texture :: Texture where
  "example_texture =
     \<lparr>native = 7, isValid = True, region = example_rect,
      untrimmedRegion = \<lparr>rect_x = Finite 1, rect_y = Finite 2, rect_width = Finite 40,
                         rect_height = Finite 20\<rparr>,
      renderWidth = Finite 32, renderHeight = Finite 16, mSlice9borders = None,
      registrationPointX = Finite 0, registrationPointY = Finite 0\<rparr>"

definition infinite_matrix :: Matrix where
  "infinite_matrix = identity_matrix\<lparr>v0 := PosInf\<rparr>"

definition NaN_matrix :: Matrix where
  "NaN_matrix = identity_matrix\<lparr>v4 := NaN\<rparr>"

definition fractional_matrix :: Matrix where
  "fractional_matrix = identity_matrix\<lparr>v4 := Finite (3 / 2), v5 := Finite (5 / 2)\<rparr>"



text \<open>Flag values with one bit each, and a text field whose two flags are both set.\<close>

definition example_flags :: DirtyFlag where
  "example_flags = \<lparr>RENDER = 8, RENDER_CACHE = 16\<rparr>"

definition example_measureBitmap :: "string \<Rightarrow> nat \<Rightarrow> number \<Rightarrow> Rectangle \<Rightarrow> Rectangle" where
  "example_measureBitmap str font lineHeight out =
     out\<lparr>rect_width := Finite (real (length str * font)),
          rect_height := times_js lineHeight (Finite (real font))\<rparr>"

definition example_registerRenderer :: "unit \<Rightarrow> nat BitmapTextRenderer \<Rightarrow> bool" where
  "example_registerRenderer driver renderer = r_visible renderer"

definition never_renderable :: "nat BitmapTextRenderer \<Rightarrow> bool" where
  "never_renderable renderer = False"

definition always_renderable :: "nat BitmapTextRenderer \<Rightarrow> bool" where
  "always_renderable renderer = True"

definition stage_renderer :: Renderer where
  "stage_renderer =
     \<lparr>r_transform = identity_matrix, r_alpha = Finite 1, r_blendMode = MULTIPLY,
      r_visible = True, r_dirty = 0\<rparr>"

definition example_renderer :: "nat BitmapTextRenderer" where
  "example_renderer =
     \<lparr>r_transform = identity_matrix, r_alpha = Finite 1, r_blendMode = OtherMode ''normal'',
      r_visible = True, r_dirty = 0, r_text = [], r_data = 0, r_multiline = False,
      r_lineHeight = Finite 1, r_fieldWidth = Finite 0, r_fieldHeight = Finite 0,
      r_autoSize = True, r_bounds = new_Rectangle\<rparr>"

definition example_field :: "nat BitmapTextField" where
  "example_field =
     \<lparr>mDirty = 24, mAlpha = Finite (1 / 2), mVisible = True, blendMode = AUTO,
      finalTransformation = identity_matrix, mRenderer = example_renderer, mData = 8,
      mText = ''score'', mAutoSize = True, mMultiline = False, mLineHeight = round_binary64 (6 / 5),
      mBounds = new_Rectangle, mTextBounds = new_Rectangle, mFieldWidth = Finite 0,
      mFieldHeight = Finite 0\<rparr>"

text \<open>A chain of three fields with alphas 0.5, 0.8 and 1.0.\<close>

definition root_field :: "nat BitmapTextField" where
  "root_field = example_field\<lparr>mAlpha := Finite (1 / 2), blendMode := MULTIPLY\<rparr>"

definition child_field :: "nat BitmapTextField" where
  "child_field = example_field\<lparr>mAlpha := round_binary64 (4 / 5), blendMode := AUTO\<rparr>"

definition grandchild_field :: "nat BitmapTextField" where
  "grandchild_field = example_field\<lparr>mAlpha := Finite 1, blendMode := OtherMode ''add''\<rparr>"

definition NaN_width_field :: "nat BitmapTextField" where
  "NaN_width_field = example_field\<lparr>mDirty := 0, mFieldWidth := NaN\<rparr>"

definition example_sprite :: Sprite where
  "example_sprite =
     \<lparr>mDirty = 0, mAlpha = Finite 1, mVisible = True, blendMode = AUTO,
      finalTransformation = identity_matrix, mTexture = Some 7, mTextureName = None,
      mTiling = None, mSlice9grid = None\<rparr>"

definition example_deref :: "ref \<Rightarrow> Texture" where
  "example_deref t = example_texture\<lparr>native := t\<rparr>"

definition example_set_anchor :: "number \<Rightarrow> Sprite \<Rightarrow> Sprite" where
  "example_set_anchor a this = this"

section \<open>Numbers and bit masks\<close>

text \<open>The rules that evaluate \<open>round_binary64\<close> at a concrete number.\<close>

lemmas binary64_eval =
  round_binary64_def normalise.simps round_half_even_def pow2_def Let_def

lemma plus_js_commute: "plus_js a b = plus_js b a"
  by (cases a; cases b) (simp_all add: add.commute)

lemma sint_small: "sint (word_of_int k :: 32 word) = k" if "- (2^31) \<le> k" "k < 2^31"
  using that by (simp add: sint_sbintrunc' signed_take_bit_int_eq_self)

lemma truncate_js_bounds:
  assumes "\<bar>r\<bar> < 2 ^ 31"
  shows "- (2 ^ 31) \<le> truncate_js r" and "truncate_js r < 2 ^ 31"
  using assms unfolding truncate_js_def by (auto; linarith)+

lemma bitor_zero_truncates:
  assumes "\<bar>r\<bar> < 2 ^ 31"
  shows "bitor_js (Finite r) (Finite 0) = Finite (real_of_int (truncate_js r))"
proof -
  have "ToInt32 (Finite r) OR ToInt32 (Finite 0) = (word_of_int (truncate_js r) :: 32 word)"
    by (simp add: truncate_js_def [of 0])
  moreover have "sint (word_of_int (truncate_js r) :: 32 word) = truncate_js r"
    using truncate_js_bounds [OF assms] by (rule sint_small)
  ultimately show ?thesis
    unfolding bitor_js_def by (simp only:)
qed

text \<open>
  A flag that is one bit of the mask: a test \<open>m & f\<close> that is not zero means the bit
  is set, and then \<open>m ^ f\<close> and \<open>m & ~f\<close> are the same mask.
\<close>

lemma single_bitE: "single_bit w \<Longrightarrow> \<exists>i<32. w = push_bit i 1"
  by (auto simp: single_bit_def)

lemma and_push_bit:
  assumes "(m::32 word) AND push_bit i 1 \<noteq> 0"
  shows "m AND push_bit i 1 = push_bit i 1"
proof -
  have "bit m i"
  proof (rule ccontr)
    assume "\<not> bit m i"
    then have "m AND push_bit i 1 = 0"
      by (intro bit_eqI) (auto simp: bit_simps)
    with assms show False by simp
  qed
  then show ?thesis
    by (intro bit_eqI) (auto simp: bit_simps)
qed

lemma and_single_bit: "single_bit f \<Longrightarrow> m AND f \<noteq> 0 \<Longrightarrow> m AND f = f"
  using and_push_bit single_bitE by blast

lemma xor_is_and_not: "(m::32 word) AND f = f \<Longrightarrow> m XOR f = m AND NOT f"
  by (rule bit_eqI) (metis bit_and_iff bit_not_iff bit_xor_iff)

lemma guarded_xor:
  "single_bit f \<Longrightarrow> m AND f \<noteq> 0 \<Longrightarrow> m XOR f = m AND NOT f"
  by (rule xor_is_and_not) (rule and_single_bit)

lemma xor_other_bit:
  "i \<noteq> j \<Longrightarrow> ((m::32 word) XOR push_bit i 1) AND push_bit j 1 = m AND push_bit j 1"
  by (rule bit_eqI) (auto simp: bit_simps)

lemma xor_other_flag:
  assumes "independent_bits DF"
  shows "(m XOR RENDER DF) AND RENDER_CACHE DF = m AND RENDER_CACHE DF"
proof -
  from assms obtain i j where "RENDER DF = push_bit i 1" "RENDER_CACHE DF = push_bit j 1"
    unfolding independent_bits_def using single_bitE by blast
  moreover from this assms have "i \<noteq> j"
    by (auto simp: independent_bits_def)
  ultimately show ?thesis
    using xor_other_bit [of i j m] by simp
qed

lemma and_not_and_same: "((m::32 word) AND NOT f) AND f = 0"
  by (rule bit_eqI) (auto simp: bit_simps)

lemma and_not_subset: "((m::32 word) AND NOT f) AND NOT m = 0"
  by (rule bit_eqI) (auto simp: bit_simps)

lemma and_not_keeps_subset:
  assumes "(a::32 word) AND NOT m = 0"
  shows "(a AND NOT g) AND NOT m = 0"
proof -
  have "(a AND NOT g) AND NOT m = (a AND NOT m) AND NOT g"
    by (simp add: ac_simps)
  then show ?thesis
    using assms by simp
qed

lemma xor_same_bit:
  assumes "(m::32 word) AND f = f"
  shows "(m XOR f) AND f = 0"
  using assms by (simp add: xor_is_and_not and_not_and_same)

lemma example_flags_independent: "independent_bits example_flags"
  by (simp add: independent_bits_def single_bit_def example_flags_def upt_rec)

lemma example_field_dirty:
  "mDirty example_field AND RENDER example_flags \<noteq> 0"
  "mDirty example_field AND RENDER_CACHE example_flags \<noteq> 0"
  by (simp_all add: example_field_def example_flags_def)

section \<open>Drawing textures\<close>

text \<open>
  Claim C3. For a texture whose \<open>isValid\<close> is false, \<open>drawTexture\<close> and
  \<open>drawTextureWithOffset\<close> return the driver as it was: no operation reaches the
  context, no other field changes, and no error is raised (the functions have no failing
  branch).
\<close>

theorem invalid_texture_skipped:
  "isValid texture = False \<Longrightarrow>
     drawTexture this texture = this \<and> drawTextureWithOffset this texture ox oy = this"
  by (simp add: drawTexture_def drawTextureWithOffset_def)

text \<open>
  The property at an invalid texture and a driver whose context has received nothing.
\<close>

theorem invalid_texture_skipped_witness:
  "isValid (example_texture\<lparr>isValid := False\<rparr>) = False \<and>
   drawTexture example_driver (example_texture\<lparr>isValid := False\<rparr>) = example_driver \<and>
   drawTextureWithOffset example_driver (example_texture\<lparr>isValid := False\<rparr>) (Finite 10) (Finite 20)
     = example_driver \<and>
   mCtx example_driver = []"
  using invalid_texture_skipped [of "example_texture\<lparr>isValid := False\<rparr>" example_driver
      "Finite 10" "Finite 20"]
  by (simp add: example_driver_def)

text \<open>
  Claim C9. \<open>drawTextureWithOffset(texture, ox, oy)\<close> does what \<open>drawTexture\<close> does
  on the texture whose \<open>untrimmedRegion\<close> origin is moved by \<open>(ox, oy)\<close>: the same
  \<open>drawImage\<close> call, so the same source rectangle, destination origin and destination
  size. It holds for every texture, valid or not.
\<close>

theorem offset_draw_equivalence:
  "drawTextureWithOffset this texture ox oy =
   drawTexture this
     (texture\<lparr>untrimmedRegion := (untrimmedRegion texture)
        \<lparr>rect_x := plus_js (rect_x (untrimmedRegion texture)) ox,
         rect_y := plus_js (rect_y (untrimmedRegion texture)) oy\<rparr>\<rparr>)"
  by (simp add: drawTexture_def drawTextureWithOffset_def Let_def plus_js_commute)

text \<open>
  The spec's example, offsets 10 and 20, with the call that reaches the context.
\<close>

theorem offset_draw_equivalence_witness:
  "drawTextureWithOffset example_driver example_texture (Finite 10) (Finite 20) =
   drawTexture example_driver
     (example_texture\<lparr>untrimmedRegion := (untrimmedRegion example_texture)
        \<lparr>rect_x := Finite 11, rect_y := Finite 22\<rparr>\<rparr>) \<and>
   mCtx (drawTextureWithOffset example_driver example_texture (Finite 10) (Finite 20)) =
     [drawImage 7 (Finite 3) (Finite 4) (Finite 32) (Finite 16)
        (Finite 22) (Finite 44) (Finite 64) (Finite 32)]"
  using offset_draw_equivalence [of example_driver example_texture "Finite 10" "Finite 20"]
  by (simp add: example_driver_def example_texture_def example_rect_def drawTexture_def
      binary64_eval)

section \<open>Setting the transform\<close>

lemma assert_components_Inr:
  "assert_components m = Inr u \<longleftrightarrow>
     \<not> (isNaN (v0 m) \<or> isNaN (v1 m) \<or> isNaN (v2 m) \<or> isNaN (v3 m) \<or> isNaN (v4 m) \<or> isNaN (v5 m))"
  by (simp add: assert_components_def Debug_assert_def)

lemma assert_components_Inl:
  "(\<exists>message. assert_components m = Inl (AssertionError message)) \<longleftrightarrow>
     (isNaN (v0 m) \<or> isNaN (v1 m) \<or> isNaN (v2 m) \<or> isNaN (v3 m) \<or> isNaN (v4 m) \<or> isNaN (v5 m))"
  by (auto simp: assert_components_def Debug_assert_def)

text \<open>
  Claim C5, as stated, fails: an infinite component passes the six assertions, which
  test \<open>isNaN\<close> only, and the transform with \<open>Infinity\<close> as its a-component is applied
  to the context.
\<close>

theorem setTransform_infinite_counterexample:
  "setTransform example_driver infinite_matrix =
     Inr (example_driver
            \<lparr>mTransform := infinite_matrix,
             mCtx := [ctx_setTransform PosInf (Finite 0) (Finite 0) (Finite 1) (Finite 0) (Finite 0)]\<rparr>)"
  by (simp add: setTransform_def assert_components_def Debug_assert_def infinite_matrix_def
      identity_matrix_def example_driver_def bitor_js_def truncate_js_def binary64_eval)

text \<open>
  Claim C5, amended. \<open>setTransform\<close> aborts with a failed assertion exactly when one of
  the six components is NaN; it then returns no driver state, so nothing is applied to
  the context.
\<close>

theorem setTransform_asserts_no_NaN:
  "(\<exists>message. setTransform this m = Inl (AssertionError message)) \<longleftrightarrow>
     (isNaN (v0 m) \<or> isNaN (v1 m) \<or> isNaN (v2 m) \<or> isNaN (v3 m) \<or> isNaN (v4 m) \<or> isNaN (v5 m))"
proof (cases "assert_components m")
  case (Inl e)
  then have "setTransform this m = Inl e"
    by (simp add: setTransform_def)
  moreover from Inl have "\<exists>message. e = AssertionError message"
    by (auto simp: assert_components_def Debug_assert_def split: if_splits)
  ultimately show ?thesis
    using Inl assert_components_Inl [of m] by auto
next
  case (Inr u)
  then have "\<exists>this'. setTransform this m = Inr this'"
    by (simp add: setTransform_def Let_def)
  then show ?thesis
    using Inr assert_components_Inr [of m u] by auto
qed

text \<open>
  A matrix whose tx is NaN is rejected with the message of the fifth assertion.
\<close>

theorem setTransform_asserts_no_NaN_witness:
  "isNaN (v4 NaN_matrix) \<and>
   setTransform example_driver NaN_matrix = Inl (AssertionError ''tx-element cannot be NaN'')"
  using setTransform_asserts_no_NaN [of example_driver NaN_matrix]
  by (simp add: setTransform_def assert_components_def Debug_assert_def NaN_matrix_def
      identity_matrix_def)

text \<open>
  Claim C6, as stated, fails: with pixel snapping on, scale 2 and translation
  (1.5, 2.5) the context receives (3, 5), the scaled translation cut to an integer.
  Snapping before scaling gives 4 or 2 for tx, whichever way 1.5 is made an integer.
\<close>

theorem setTransform_snap_counterexample:
  "setTransform example_driver fractional_matrix =
     Inr (example_driver
            \<lparr>mTransform := fractional_matrix,
             mCtx := [ctx_setTransform (Finite 1) (Finite 0) (Finite 0) (Finite 1)
                        (Finite 3) (Finite 5)]\<rparr>) \<and>
   mSnapToPixels example_driver = True \<and>
   snap_before_scaling round (v4 fractional_matrix) (mStageScaleFactor example_driver) = Finite 4 \<and>
   snap_before_scaling floor (v4 fractional_matrix) (mStageScaleFactor example_driver) = Finite 2 \<and>
   snap_before_scaling truncate_js (v4 fractional_matrix) (mStageScaleFactor example_driver) = Finite 2 \<and>
   snap_before_scaling ceiling (v4 fractional_matrix) (mStageScaleFactor example_driver) = Finite 4"
  by (simp add: setTransform_def assert_components_def Debug_assert_def fractional_matrix_def
      identity_matrix_def example_driver_def bitor_js_def truncate_js_def snap_before_scaling_def
      round_def binary64_eval)

text \<open>
  Claim C6, amended. When the assertions pass, the context receives a, b, c, d as they
  are, whatever the flag; with the flag false the translation is \<open>tx * scale\<close> and
  \<open>ty * scale\<close>; with the flag true it is \<open>(tx * scale) | 0\<close> and
  \<open>(ty * scale) | 0\<close>, the product after scaling converted to a 32-bit integer, which for
  a product below \<open>2^31\<close> in magnitude is the product truncated towards zero.
\<close>

theorem setTransform_translation:
  assumes "\<not> isNaN (v0 m)" "\<not> isNaN (v1 m)" "\<not> isNaN (v2 m)" "\<not> isNaN (v3 m)"
    "\<not> isNaN (v4 m)" "\<not> isNaN (v5 m)"
  shows "setTransform this m =
     Inr (this\<lparr>mTransform := m,
               mCtx := mCtx this @
                 [ctx_setTransform (v0 m) (v1 m) (v2 m) (v3 m)
                    (if mSnapToPixels this
                     then bitor_js (times_js (v4 m) (mStageScaleFactor this)) (Finite 0)
                     else times_js (v4 m) (mStageScaleFactor this))
                    (if mSnapToPixels this
                     then bitor_js (times_js (v5 m) (mStageScaleFactor this)) (Finite 0)
                     else times_js (v5 m) (mStageScaleFactor this))]\<rparr>) \<and>
     (\<bar>r\<bar> < 2 ^ 31 \<longrightarrow> bitor_js (Finite r) (Finite 0) = Finite (real_of_int (truncate_js r)))"
  using assms assert_components_Inr [of m "()"] bitor_zero_truncates [of r]
  by (simp add: setTransform_def Let_def)

text \<open>
  Scale 2 and translation (-1.75, 2.5): (-3, 5) with snapping, (-3.5, 5) without.
  Scale 1.25 and translation (34.4, 1/3), both as binary64 values: (43, 0) with
  snapping, since the binary64 product \<open>34.4 * 1.25\<close> is 43. Likewise
  \<open>(10 * 0.7) | 0\<close> is 7 and \<open>((1/3) * 3) | 0\<close> is 1.
\<close>

theorem setTransform_translation_witness:
  "setTransform example_driver (identity_matrix\<lparr>v4 := Finite (- 7 / 4), v5 := Finite (5 / 2)\<rparr>) =
     Inr (example_driver
            \<lparr>mTransform := identity_matrix\<lparr>v4 := Finite (- 7 / 4), v5 := Finite (5 / 2)\<rparr>,
             mCtx := [ctx_setTransform (Finite 1) (Finite 0) (Finite 0) (Finite 1)
                        (Finite (- 3)) (Finite 5)]\<rparr>) \<and>
   setTransform (example_driver\<lparr>mSnapToPixels := False\<rparr>)
       (identity_matrix\<lparr>v4 := Finite (- 7 / 4), v5 := Finite (5 / 2)\<rparr>) =
     Inr (example_driver
            \<lparr>mSnapToPixels := False,
             mTransform := identity_matrix\<lparr>v4 := Finite (- 7 / 4), v5 := Finite (5 / 2)\<rparr>,
             mCtx := [ctx_setTransform (Finite 1) (Finite 0) (Finite 0) (Finite 1)
                        (Finite (- 7 / 2)) (Finite 5)]\<rparr>) \<and>
   setTransform (example_driver\<lparr>mStageScaleFactor := Finite (5 / 4)\<rparr>)
       (identity_matrix\<lparr>v4 := round_binary64 (172 / 5), v5 := round_binary64 (1 / 3)\<rparr>) =
     Inr (example_driver
            \<lparr>mStageScaleFactor := Finite (5 / 4),
             mTransform := identity_matrix\<lparr>v4 := round_binary64 (172 / 5),
                                           v5 := round_binary64 (1 / 3)\<rparr>,
             mCtx := [ctx_setTransform (Finite 1) (Finite 0) (Finite 0) (Finite 1)
                        (Finite 43) (Finite 0)]\<rparr>) \<and>
   bitor_js (times_js (Finite 10) (round_binary64 (7 / 10))) (Finite 0) = Finite 7 \<and>
   bitor_js (times_js (round_binary64 (1 / 3)) (Finite 3)) (Finite 0) = Finite 1"
  using setTransform_translation
      [of "identity_matrix\<lparr>v4 := Finite (- 7 / 4), v5 := Finite (5 / 2)\<rparr>" example_driver "- 7 / 2"]
    setTransform_translation
      [of "identity_matrix\<lparr>v4 := Finite (- 7 / 4), v5 := Finite (5 / 2)\<rparr>"
          "example_driver\<lparr>mSnapToPixels := False\<rparr>" "- 7 / 2"]
    setTransform_translation
      [of "identity_matrix\<lparr>v4 := round_binary64 (172 / 5), v5 := round_binary64 (1 / 3)\<rparr>"
          "example_driver\<lparr>mStageScaleFactor := Finite (5 / 4)\<rparr>" 43]
  by (simp add: identity_matrix_def example_driver_def truncate_js_def bitor_js_def
      binary64_eval)

section \<open>Shadow state after a resize\<close>







section \<open>Synchronising a bitmap text field with its renderer\<close>

lemma mDirty_copy_render_state [simp]: "mDirty (copy_render_state p n) = mDirty n"
  by (simp add: copy_render_state_def)

lemma mDirty_rebuild_cache [simp]: "mDirty (rebuild_cache DF mb n) = mDirty n"
  by (simp add: rebuild_cache_def onGetLocalBounds_def Let_def)

lemma sync_RENDER_eq:
  assumes "single_bit (RENDER DF)"
  shows "sync_RENDER DF p n = sync_RENDER_and_not DF p n"
proof (cases "mDirty n AND RENDER DF = 0")
  case True
  then show ?thesis
    by (simp add: sync_RENDER_def sync_RENDER_and_not_def)
next
  case False
  with assms have "mDirty n XOR RENDER DF = mDirty n AND NOT (RENDER DF)"
    by (rule guarded_xor)
  with False show ?thesis
    by (simp add: sync_RENDER_def sync_RENDER_and_not_def Let_def)
qed

lemma sync_RENDER_CACHE_eq:
  assumes "single_bit (RENDER_CACHE DF)"
  shows "sync_RENDER_CACHE DF mb isR n = sync_RENDER_CACHE_and_not DF mb isR n"
proof (cases "mDirty n AND RENDER_CACHE DF = 0")
  case True
  then show ?thesis
    by (simp add: sync_RENDER_CACHE_def sync_RENDER_CACHE_and_not_def)
next
  case False
  with assms have "mDirty n XOR RENDER_CACHE DF = mDirty n AND NOT (RENDER_CACHE DF)"
    by (rule guarded_xor)
  with False show ?thesis
    by (simp add: sync_RENDER_CACHE_def sync_RENDER_CACHE_and_not_def Let_def)
qed

lemma mDirty_sync_RENDER_and_not:
  "mDirty (sync_RENDER_and_not DF p n) =
     (if mDirty n AND RENDER DF \<noteq> 0 then mDirty n AND NOT (RENDER DF) else mDirty n)"
  by (simp add: sync_RENDER_and_not_def Let_def)

lemma mDirty_sync_RENDER_CACHE_and_not:
  "mDirty (sync_RENDER_CACHE_and_not DF mb isR n) =
     (if mDirty n AND RENDER_CACHE DF \<noteq> 0 \<and> isR (mRenderer (rebuild_cache DF mb n))
      then mDirty n AND NOT (RENDER_CACHE DF) else mDirty n)"
  by (simp add: sync_RENDER_CACHE_and_not_def Let_def)

lemma mDirty_onRender:
  "mDirty (snd (onRender DF mb isR reg drv p n)) =
     mDirty (sync_RENDER_CACHE DF mb isR (sync_RENDER DF p n))"
  by (simp add: onRender_def Let_def)

lemma sync_RENDER_keeps_cache_bit:
  assumes "independent_bits DF"
  shows "mDirty (sync_RENDER DF p n) AND RENDER_CACHE DF = mDirty n AND RENDER_CACHE DF"
  using xor_other_flag [OF assms] by (simp add: sync_RENDER_def Let_def)

lemma cache_bit_after_onRender:
  assumes "independent_bits DF" and "mDirty n AND RENDER_CACHE DF \<noteq> 0"
  shows "(mDirty (snd (onRender DF mb isR reg drv p n)) AND RENDER_CACHE DF = 0) \<longleftrightarrow>
         isR (mRenderer (rebuild_cache DF mb (sync_RENDER DF p n)))"
proof -
  let ?n1 = "sync_RENDER DF p n"
  have set1: "mDirty ?n1 AND RENDER_CACHE DF \<noteq> 0"
    using assms by (simp add: sync_RENDER_keeps_cache_bit)
  have sb: "single_bit (RENDER_CACHE DF)"
    using assms(1) by (simp add: independent_bits_def)
  have full: "mDirty ?n1 AND RENDER_CACHE DF = RENDER_CACHE DF"
    using sb set1 by (rule and_single_bit)
  show ?thesis
  proof (cases "isR (mRenderer (rebuild_cache DF mb ?n1))")
    case True
    then have "mDirty (sync_RENDER_CACHE DF mb isR ?n1) = mDirty ?n1 XOR RENDER_CACHE DF"
      using set1 by (simp add: sync_RENDER_CACHE_def Let_def)
    then show ?thesis
      using True full by (simp add: mDirty_onRender xor_same_bit)
  next
    case False
    then have "mDirty (sync_RENDER_CACHE DF mb isR ?n1) = mDirty ?n1"
      using set1 by (simp add: sync_RENDER_CACHE_def Let_def)
    then show ?thesis
      using False set1 by (simp add: mDirty_onRender)
  qed
qed

lemma r_alpha_onRender:
  assumes "mDirty n AND RENDER DF \<noteq> 0"
  shows "r_alpha (mRenderer (snd (onRender DF mb isR reg drv p n))) =
         times_js (mAlpha n) (r_alpha p)"
  using assms
  by (simp add: onRender_def sync_RENDER_def sync_RENDER_CACHE_def rebuild_cache_def
      copy_render_state_def onGetLocalBounds_def Let_def split_def)

lemma r_blendMode_onRender:
  assumes "mDirty n AND RENDER DF \<noteq> 0"
  shows "r_blendMode (mRenderer (snd (onRender DF mb isR reg drv p n))) =
         (if blendMode n = AUTO then r_blendMode p else blendMode n)"
  using assms
  by (simp add: onRender_def sync_RENDER_def sync_RENDER_CACHE_def rebuild_cache_def
      copy_render_state_def onGetLocalBounds_def Let_def split_def)

text \<open>
  Claim C1. When \<open>RENDER_CACHE\<close> is set at the call of \<open>onRender\<close>, the bit is clear
  afterwards exactly when \<open>isRenderable\<close> holds of the rebuilt renderer. If it does not
  hold the bit is still set when \<open>onRender\<close> returns, and a later \<open>onRender\<close> on that
  field whose rebuilt renderer is renderable clears it.
\<close>

theorem RENDER_CACHE_cleared_iff_renderable:
  assumes "independent_bits DF" and "mDirty n AND RENDER_CACHE DF \<noteq> 0"
  shows "((mDirty (snd (onRender DF mb isR reg drv p n)) AND RENDER_CACHE DF = 0) \<longleftrightarrow>
            isR (mRenderer (rebuild_cache DF mb (sync_RENDER DF p n)))) \<and>
         (\<not> isR (mRenderer (rebuild_cache DF mb (sync_RENDER DF p n))) \<longrightarrow>
            mDirty (snd (onRender DF mb isR reg drv p n)) AND RENDER_CACHE DF \<noteq> 0 \<and>
            (isR' (mRenderer (rebuild_cache DF mb'
                     (sync_RENDER DF p' (snd (onRender DF mb isR reg drv p n))))) \<longrightarrow>
               mDirty (snd (onRender DF mb' isR' reg' drv' p'
                              (snd (onRender DF mb isR reg drv p n))))
                 AND RENDER_CACHE DF = 0))"
proof -
  let ?n' = "snd (onRender DF mb isR reg drv p n)"
  let ?renderable = "isR (mRenderer (rebuild_cache DF mb (sync_RENDER DF p n)))"
  let ?renderable' = "isR' (mRenderer (rebuild_cache DF mb' (sync_RENDER DF p' ?n')))"
  have first: "(mDirty ?n' AND RENDER_CACHE DF = 0) \<longleftrightarrow> ?renderable"
    using assms by (rule cache_bit_after_onRender)
  have kept: "mDirty ?n' AND RENDER_CACHE DF \<noteq> 0" if "\<not> ?renderable"
    using first that by simp
  have later: "mDirty (snd (onRender DF mb' isR' reg' drv' p' ?n')) AND RENDER_CACHE DF = 0"
    if "mDirty ?n' AND RENDER_CACHE DF \<noteq> 0" and "?renderable'"
    using cache_bit_after_onRender [OF assms(1) that(1), of mb' isR' reg' drv' p'] that(2)
    by simp
  show ?thesis
  proof (intro conjI impI)
    show "(mDirty ?n' AND RENDER_CACHE DF = 0) \<longleftrightarrow> ?renderable"
      by (rule first)
  next
    assume "\<not> ?renderable"
    then show "mDirty ?n' AND RENDER_CACHE DF \<noteq> 0"
      by (rule kept)
  next
    assume "\<not> ?renderable" and "?renderable'"
    then show "mDirty (snd (onRender DF mb' isR' reg' drv' p' ?n')) AND RENDER_CACHE DF = 0"
      using kept later by simp
  qed
qed

text \<open>
  A field synchronised first with a renderer that is not renderable, then with one
  that is.
\<close>

theorem RENDER_CACHE_cleared_iff_renderable_witness:
  "independent_bits example_flags \<and>
   mDirty example_field AND RENDER_CACHE example_flags \<noteq> 0 \<and>
   mDirty (snd (onRender example_flags example_measureBitmap never_renderable
       example_registerRenderer () stage_renderer example_field))
     AND RENDER_CACHE example_flags \<noteq> 0 \<and>
   mDirty (snd (onRender example_flags example_measureBitmap always_renderable
       example_registerRenderer () stage_renderer
       (snd (onRender example_flags example_measureBitmap never_renderable
          example_registerRenderer () stage_renderer example_field))))
     AND RENDER_CACHE example_flags = 0"
  using RENDER_CACHE_cleared_iff_renderable [OF example_flags_independent example_field_dirty(2),
      where mb = example_measureBitmap and isR = never_renderable
      and reg = example_registerRenderer and drv = "()" and p = stage_renderer
      and mb' = example_measureBitmap and isR' = always_renderable
      and reg' = example_registerRenderer and drv' = "()" and p' = stage_renderer]
  by (simp add: example_flags_independent example_field_dirty never_renderable_def
      always_renderable_def)

text \<open>
  Claim C2. Each of the two clears of \<open>onRender\<close> is equal to the clear by AND-NOT of
  the flag it services, on every field and so on every mask: the other bits are
  unchanged and no bit is turned on. After \<open>onRender\<close> the mask has no bit that it did
  not have before.
\<close>

theorem clears_are_and_not:
  assumes "independent_bits DF"
  shows "sync_RENDER DF p n = sync_RENDER_and_not DF p n \<and>
         sync_RENDER_CACHE DF mb isR n = sync_RENDER_CACHE_and_not DF mb isR n \<and>
         mDirty (snd (onRender DF mb isR reg drv p n)) AND NOT (mDirty n) = 0"
proof -
  have r: "single_bit (RENDER DF)" and c: "single_bit (RENDER_CACHE DF)"
    using assms by (simp_all add: independent_bits_def)
  let ?n1 = "sync_RENDER_and_not DF p n"
  have "mDirty ?n1 AND NOT (mDirty n) = 0"
    by (simp add: mDirty_sync_RENDER_and_not and_not_subset)
  then have "mDirty (sync_RENDER_CACHE_and_not DF mb isR ?n1) AND NOT (mDirty n) = 0"
    by (simp add: mDirty_sync_RENDER_CACHE_and_not and_not_keeps_subset)
  then have "mDirty (snd (onRender DF mb isR reg drv p n)) AND NOT (mDirty n) = 0"
    by (simp add: mDirty_onRender sync_RENDER_eq [OF r] sync_RENDER_CACHE_eq [OF c])
  with r c show ?thesis
    by (simp add: sync_RENDER_eq sync_RENDER_CACHE_eq)
qed

text \<open>
  The mask 24 (both flags set) becomes 16 after the \<open>RENDER\<close> block.
\<close>

theorem clears_are_and_not_witness:
  "independent_bits example_flags \<and>
   sync_RENDER example_flags stage_renderer example_field =
     sync_RENDER_and_not example_flags stage_renderer example_field \<and>
   sync_RENDER_CACHE example_flags example_measureBitmap always_renderable example_field =
     sync_RENDER_CACHE_and_not example_flags example_measureBitmap always_renderable
       example_field \<and>
   mDirty (sync_RENDER_and_not example_flags stage_renderer example_field) = 16 \<and>
   mDirty (snd (onRender example_flags example_measureBitmap always_renderable
       example_registerRenderer () stage_renderer example_field))
     AND NOT (mDirty example_field) = 0"
  using clears_are_and_not [OF example_flags_independent, where n = example_field
      and p = stage_renderer and mb = example_measureBitmap and isR = always_renderable
      and reg = example_registerRenderer and drv = "()"]
  by (simp add: example_flags_independent mDirty_sync_RENDER_and_not example_field_dirty)
    (simp add: example_field_def example_flags_def)

text \<open>
  The product \<open>1.0 * (0.8 * (0.5 * 1))\<close> in binary64 is the value of the literal
  \<open>0.4\<close>.
\<close>

lemma alpha_chain_product:
  "times_js (Finite 1) (times_js (round_binary64 (4 / 5)) (times_js (Finite (1 / 2)) (Finite 1)))
     = round_binary64 (2 / 5)"
  by (simp add: binary64_eval)

text \<open>
  Claim C7. When \<open>RENDER\<close> is set, \<open>onRender\<close> sets the renderer's alpha to the
  product of the field's alpha and the parent renderer's alpha. For a chain of three
  fields with alphas 0.5, 0.8 and 1.0 synchronised parent first, the first under a
  renderer of alpha 1, the last renderer's alpha is 0.4. Here 0.8 and 0.4 are the
  binary64 values of these literals, and the products are binary64 products.
\<close>

theorem renderer_alpha_is_product:
  assumes "mDirty rootNode AND RENDER DF \<noteq> 0"
    and "mDirty nodeA AND RENDER DF \<noteq> 0"
    and "mDirty nodeB AND RENDER DF \<noteq> 0"
  shows "r_alpha (mRenderer (snd (onRender DF mb isR reg drv stage rootNode))) =
           times_js (mAlpha rootNode) (r_alpha stage) \<and>
         r_alpha (mRenderer (snd (onRender DF mb isR reg drv
             (mRenderer (snd (onRender DF mb isR reg drv stage rootNode))) nodeA))) =
           times_js (mAlpha nodeA) (r_alpha (mRenderer (snd (onRender DF mb isR reg drv stage rootNode)))) \<and>
         (r_alpha stage = Finite 1 \<and> mAlpha rootNode = Finite (1 / 2) \<and>
          mAlpha nodeA = round_binary64 (4 / 5) \<and> mAlpha nodeB = Finite 1 \<longrightarrow>
            r_alpha (mRenderer (snd (onRender DF mb isR reg drv
              (mRenderer (snd (onRender DF mb isR reg drv
                 (mRenderer (snd (onRender DF mb isR reg drv stage rootNode))) nodeA))) nodeB))) =
            round_binary64 (2 / 5))"
proof -
  let ?r0 = "mRenderer (snd (onRender DF mb isR reg drv stage rootNode))"
  let ?rA = "mRenderer (snd (onRender DF mb isR reg drv ?r0 nodeA))"
  let ?rB = "mRenderer (snd (onRender DF mb isR reg drv ?rA nodeB))"
  have r0: "r_alpha ?r0 = times_js (mAlpha rootNode) (r_alpha stage)"
    using assms(1) by (rule r_alpha_onRender)
  have rA: "r_alpha ?rA = times_js (mAlpha nodeA) (r_alpha ?r0)"
    using assms(2) by (rule r_alpha_onRender)
  have rB: "r_alpha ?rB = times_js (mAlpha nodeB) (r_alpha ?rA)"
    using assms(3) by (rule r_alpha_onRender)
  have chain: "r_alpha ?rB = round_binary64 (2 / 5)"
    if "r_alpha stage = Finite 1" "mAlpha rootNode = Finite (1 / 2)"
      "mAlpha nodeA = round_binary64 (4 / 5)" "mAlpha nodeB = Finite 1"
    using alpha_chain_product by (simp only: rB rA r0 that)
  from r0 rA chain show ?thesis
    by (intro conjI impI) simp_all
qed

text \<open>
  The chain of the three example fields under the stage renderer; the alpha that
  reaches the last renderer is the binary64 value of \<open>0.4\<close>.
\<close>

theorem renderer_alpha_is_product_witness:
  "mDirty root_field AND RENDER example_flags \<noteq> 0 \<and>
   mDirty child_field AND RENDER example_flags \<noteq> 0 \<and>
   mDirty grandchild_field AND RENDER example_flags \<noteq> 0 \<and>
   r_alpha stage_renderer = Finite 1 \<and> mAlpha root_field = Finite (1 / 2) \<and>
   mAlpha child_field = round_binary64 (4 / 5) \<and> mAlpha grandchild_field = Finite 1 \<and>
   r_alpha (mRenderer (snd (onRender example_flags example_measureBitmap always_renderable
       example_registerRenderer ()
     (mRenderer (snd (onRender example_flags example_measureBitmap always_renderable
         example_registerRenderer ()
       (mRenderer (snd (onRender example_flags example_measureBitmap always_renderable
           example_registerRenderer () stage_renderer root_field))) child_field)))
     grandchild_field))) = round_binary64 (2 / 5) \<and>
   round_binary64 (2 / 5) = Finite (3602879701896397 / 9007199254740992)"
  using renderer_alpha_is_product [where DF = example_flags and rootNode = root_field
      and nodeA = child_field and nodeB = grandchild_field and stage = stage_renderer
      and mb = example_measureBitmap and isR = always_renderable
      and reg = example_registerRenderer and drv = "()"]
  by (simp add: root_field_def child_field_def grandchild_field_def example_field_dirty
      stage_renderer_def) (simp add: binary64_eval)

text \<open>
  Claim C8. When \<open>RENDER\<close> is set, \<open>onRender\<close> gives the renderer the parent
  renderer's blend mode if the field's blend mode is \<open>AUTO\<close>, and the field's own blend
  mode otherwise; an \<open>AUTO\<close> field under a parent resolved to \<open>MULTIPLY\<close> gets
  \<open>MULTIPLY\<close>.
\<close>

theorem blend_mode_resolution:
  assumes "mDirty n AND RENDER DF \<noteq> 0"
  shows "r_blendMode (mRenderer (snd (onRender DF mb isR reg drv p n))) =
           (if blendMode n = AUTO then r_blendMode p else blendMode n) \<and>
         (blendMode n = AUTO \<and> r_blendMode p = MULTIPLY \<longrightarrow>
            r_blendMode (mRenderer (snd (onRender DF mb isR reg drv p n))) = MULTIPLY)"
  by (simp add: r_blendMode_onRender [OF assms])

text \<open>
  An \<open>AUTO\<close> field and a field with a blend mode of its own, under \<open>MULTIPLY\<close>.
\<close>

theorem blend_mode_resolution_witness:
  "mDirty child_field AND RENDER example_flags \<noteq> 0 \<and>
   blendMode child_field = AUTO \<and> r_blendMode stage_renderer = MULTIPLY \<and>
   r_blendMode (mRenderer (snd (onRender example_flags example_measureBitmap always_renderable
       example_registerRenderer () stage_renderer child_field))) = MULTIPLY \<and>
   r_blendMode (mRenderer (snd (onRender example_flags example_measureBitmap always_renderable
       example_registerRenderer () stage_renderer grandchild_field))) = OtherMode ''add''"
  using blend_mode_resolution [where DF = example_flags and n = child_field
      and p = stage_renderer and mb = example_measureBitmap and isR = always_renderable
      and reg = example_registerRenderer and drv = "()"]
    blend_mode_resolution [where DF = example_flags and n = grandchild_field
      and p = stage_renderer and mb = example_measureBitmap and isR = always_renderable
      and reg = example_registerRenderer and drv = "()"]
  by (simp add: child_field_def grandchild_field_def example_field_dirty stage_renderer_def)

section \<open>Setters called with the current value\<close>

text \<open>
  Claim C10, as stated, fails: a field whose \<open>mFieldWidth\<close> is NaN is not equal to
  itself under \<open>===\<close>, so assigning \<open>fieldWidth\<close> its current value sets
  \<open>RENDER_CACHE\<close> in a mask that was clean.
\<close>

theorem NaN_fieldWidth_counterexample:
  "mFieldWidth NaN_width_field = NaN \<and> mDirty NaN_width_field = 0 \<and>
   mDirty (set_fieldWidth example_flags (mFieldWidth NaN_width_field) NaN_width_field) = 16"
  by (simp add: NaN_width_field_def set_fieldWidth_def strict_eq_def setDirty_def
      example_flags_def)

text \<open>
  Claim C10, amended. Assigning \<open>Sprite.texture\<close> the texture object it holds, or a
  text field's \<open>text\<close> or \<open>autoSize\<close> its current value, returns the node unchanged;
  so does assigning \<open>fieldWidth\<close> or \<open>fieldHeight\<close> its current value when that value
  is not NaN.
\<close>

theorem setters_same_value_no_op:
  "set_texture DF deref set_anchorX set_anchorY (mTexture sprite) sprite = Inr sprite \<and>
   set_text DF (mText n) n = n \<and>
   set_autoSize DF (mAutoSize n) n = n \<and>
   (\<not> isNaN (mFieldWidth n) \<longrightarrow> set_fieldWidth DF (mFieldWidth n) n = n) \<and>
   (\<not> isNaN (mFieldHeight n) \<longrightarrow> set_fieldHeight DF (mFieldHeight n) n = n)"
  by (simp add: set_texture_def set_text_def set_autoSize_def set_fieldWidth_def
      set_fieldHeight_def strict_eq_def)

text \<open>
  The example sprite and the example text field, each assigned what it holds.
\<close>

theorem setters_same_value_no_op_witness:
  "\<not> isNaN (mFieldWidth example_field) \<and> \<not> isNaN (mFieldHeight example_field) \<and>
   set_texture example_flags example_deref example_set_anchor example_set_anchor (Some 7)
     example_sprite = Inr example_sprite \<and>
   set_text example_flags ''score'' example_field = example_field \<and>
   set_autoSize example_flags True example_field = example_field \<and>
   set_fieldWidth example_flags (Finite 0) example_field = example_field \<and>
   set_fieldHeight example_flags (Finite 0) example_field = example_field"
  using setters_same_value_no_op [of example_flags example_deref example_set_anchor
      example_set_anchor example_sprite example_field]
  by (simp add: example_field_def example_sprite_def)

end
